theory Spec2Isabelle
  imports Main
begin

section \<open>Data model\<close>

text \<open>
  The entities the repository refers to. \<open>Role\<close>, \<open>User\<close> and \<open>WorkflowEntity\<close> are
  imported types of the source; only the properties the repository reads are fields here
  (records are extensible, so further properties do not matter).
  \<open>user.hasGlobalScope(scope)\<close> is a method of the user entity, which the repository
  only calls: it is a function-valued field, so that every theorem holds for any
  implementation of it.
\<close>

record Role =
  id :: string
  name :: string
  scope :: string

record User =
  id :: string
  isPending :: bool
  globalRole :: Role
  hasGlobalScope :: "string \<Rightarrow> bool"

record WorkflowEntity =
  id :: string

text \<open>
  A row of the table \<open>shared_workflow(workflow_id, user_id, role_id)\<close>. The table holds
  at most one row for a pair of workflow and user: the pair is the key of the row.
\<close>

record shared_workflow_row =
  workflow_id :: string
  user_id :: string
  role_id :: string

definition row_key :: "shared_workflow_row \<Rightarrow> string \<times> string" where
  \<comment> \<open>Modelled from the spec: the pair of the invariant "at most one sharing row per
      (workflowId, userId) pair"; the entity class that declares it as the primary key is
      imported by the repository.\<close>
  "row_key row = (workflow_id row, user_id row)"

definition key_unique :: "shared_workflow_row list \<Rightarrow> bool" where
  \<comment> \<open>Modelled from the spec: the invariant itself, on a table.\<close>
  "key_unique rows \<longleftrightarrow> distinct (map row_key rows)"

text \<open>
  A \<open>SharedWorkflow\<close> entity object as the object-relational mapper hands it out or takes
  it in: every property may be absent (\<open>Partial<SharedWorkflow>\<close>, a projected read, a
  relation that was not loaded).
\<close>

record SharedWorkflow =
  workflowId :: "string option"
  userId :: "string option"
  roleId :: "string option"
  role :: "Role option"
  user :: "User option"
  workflow :: "WorkflowEntity option"

text \<open>
  The database: the sharing table and the three tables its foreign keys point to. Tables
  are lists, in the order in which the engine returns their rows.
\<close>

record database =
  tbl_shared_workflow :: "shared_workflow_row list"
  tbl_role :: "Role list"
  tbl_user :: "User list"
  tbl_workflow :: "WorkflowEntity list"

section \<open>Query predicates\<close>

text \<open>
  The values a property of a where-object takes in the repository: a plain value
  (equality), \<open>In(values)\<close> or \<open>Not(value)\<close>.
\<close>

datatype 'a FindOperator = Equal 'a | In "'a list" | Not_op 'a

text \<open>
  Nested where-objects on the three relations: \<open>workflow: { id }\<close>, \<open>user: { id }\<close> or a
  whole user entity (\<open>deleteByIds\<close>), \<open>role: { name, scope }\<close> or an operator on the
  relation itself (\<open>role: In(ids)\<close> in \<open>findWorkflowIdsByUser\<close>). \<open>UserUndefined\<close> is
  the property \<open>user\<close> written into the object with the value \<open>undefined\<close>, as
  \<open>deleteByIds\<close> does when its optional argument is omitted.
\<close>

record WorkflowWhere =
  id :: string

record UserWhere =
  id :: string

record RoleWhere =
  name :: "string FindOperator option"
  scope :: "string FindOperator option"

datatype UserCriterion = UserProps UserWhere | UserEntity User | UserUndefined

datatype RoleCriterion = RoleProps RoleWhere | RoleOperator "string FindOperator"

text \<open>
  \<open>FindOptionsWhere<SharedWorkflow>\<close>, also as the criteria of an update or a delete: a
  property that is \<open>None\<close> is absent from the object and puts no condition on the rows.
\<close>

record FindOptionsWhere =
  workflowId :: "string FindOperator option"
  userId :: "string FindOperator option"
  roleId :: "string FindOperator option"
  workflow :: "WorkflowWhere option"
  user :: "UserCriterion option"
  role :: "RoleCriterion option"

definition empty_where :: FindOptionsWhere where
  "empty_where = \<lparr>FindOptionsWhere.workflowId = None, userId = None, roleId = None,
     workflow = None, user = None, role = None\<rparr>"

fun operator_matches :: "'a FindOperator \<Rightarrow> 'a \<Rightarrow> bool" where
  "operator_matches (Equal v) x = (x = v)"
| "operator_matches (In vs) x = (x \<in> set vs)"
| "operator_matches (Not_op v) x = (x \<noteq> v)"

fun property_matches :: "'a FindOperator option \<Rightarrow> 'a \<Rightarrow> bool" where
  "property_matches None x = True"
| "property_matches (Some c) x = operator_matches c x"

section \<open>The object-relational mapper\<close>

text \<open>
  The repository class extends the mapper's generic \<open>Repository<SharedWorkflow>\<close> and
  calls its \<open>find\<close>, \<open>findOne\<close>, \<open>exist\<close>, \<open>update\<close> and \<open>create\<close>, and the entity
  manager's \<open>save\<close> and \<open>delete\<close>. The mapper is a library the repository depends on;
  what follows is its relational meaning on the four tables. Every operation takes the
  database and returns its result with the database after the call. Failures of the
  connection are outside the model.
\<close>

definition joined_role :: "database \<Rightarrow> shared_workflow_row \<Rightarrow> Role option" where
  \<comment> \<open>Modelled from the spec: the join of a sharing row with the role table on the
      foreign key \<open>role_id\<close>, which the mapper performs.\<close>
  "joined_role db row = find (\<lambda>r. Role.id r = role_id row) (tbl_role db)"

definition joined_user :: "database \<Rightarrow> shared_workflow_row \<Rightarrow> User option" where
  \<comment> \<open>Modelled from the spec: the join with the user table on \<open>user_id\<close>.\<close>
  "joined_user db row = find (\<lambda>u. User.id u = user_id row) (tbl_user db)"

definition joined_workflow :: "database \<Rightarrow> shared_workflow_row \<Rightarrow> WorkflowEntity option" where
  \<comment> \<open>Modelled from the spec: the join with the workflow table on \<open>workflow_id\<close>.\<close>
  "joined_workflow db row = find (\<lambda>w. WorkflowEntity.id w = workflow_id row) (tbl_workflow db)"

fun workflow_matches :: "database \<Rightarrow> WorkflowWhere option \<Rightarrow> shared_workflow_row \<Rightarrow> bool" where
  "workflow_matches db None row = True"
| "workflow_matches db (Some ww) row =
     (case joined_workflow db row of
        None \<Rightarrow> False
      | Some w \<Rightarrow> WorkflowEntity.id w = WorkflowWhere.id ww)"

fun user_matches :: "database \<Rightarrow> UserCriterion option \<Rightarrow> shared_workflow_row \<Rightarrow> bool" where
  "user_matches db None row = True"
| "user_matches db (Some (UserProps uw)) row =
     (case joined_user db row of
        None \<Rightarrow> False
      | Some u \<Rightarrow> User.id u = UserWhere.id uw)"
| "user_matches db (Some (UserEntity u)) row = (user_id row = User.id u)"
| "user_matches db (Some UserUndefined) row = True"

fun role_matches :: "database \<Rightarrow> RoleCriterion option \<Rightarrow> shared_workflow_row \<Rightarrow> bool" where
  "role_matches db None row = True"
| "role_matches db (Some (RoleProps rw)) row =
     (case joined_role db row of
        None \<Rightarrow> False
      | Some r \<Rightarrow> property_matches (RoleWhere.name rw) (Role.name r)
                \<and> property_matches (RoleWhere.scope rw) (Role.scope r))"
| "role_matches db (Some (RoleOperator c)) row = operator_matches c (role_id row)"

definition where_matches :: "database \<Rightarrow> FindOptionsWhere \<Rightarrow> shared_workflow_row \<Rightarrow> bool" where
  \<comment> \<open>Modelled from the spec: the mapper's reading of a where-object, the conjunction of
      the conditions of its properties. A column property is compared with the row's
      column; a nested object on a relation is a condition on the joined row, so a row
      without one does not match; an entity or an operator on a relation is a condition on
      the foreign-key column; a find skips a property whose value is \<open>undefined\<close>.\<close>
  "where_matches db wh row \<longleftrightarrow>
     property_matches (FindOptionsWhere.workflowId wh) (workflow_id row)
     \<and> property_matches (FindOptionsWhere.userId wh) (user_id row)
     \<and> property_matches (FindOptionsWhere.roleId wh) (role_id row)
     \<and> workflow_matches db (FindOptionsWhere.workflow wh) row
     \<and> user_matches db (FindOptionsWhere.user wh) row
     \<and> role_matches db (FindOptionsWhere.role wh) row"

definition criteria_matches ::
  "database \<Rightarrow> FindOptionsWhere \<Rightarrow> shared_workflow_row \<Rightarrow> bool" where
  \<comment> \<open>Modelled from the spec: the mapper's reading of the criteria of an update or a
      delete. It is that of a where-object, except that a property whose value is
      \<open>undefined\<close> is not skipped: the statement compares the column with the undefined
      value (\<open>userId = ?\<close>), which holds of no row.\<close>
  "criteria_matches db criteria row \<longleftrightarrow>
     FindOptionsWhere.user criteria \<noteq> Some UserUndefined \<and> where_matches db criteria row"

definition selected :: "string list option \<Rightarrow> string \<Rightarrow> bool" where
  \<comment> \<open>Modelled from the spec: the mapper's \<open>select\<close> option. Without the option, or with
      an empty list, every column is read; otherwise the columns that are named.\<close>
  "selected sel column \<longleftrightarrow>
     (case sel of None \<Rightarrow> True | Some fs \<Rightarrow> fs = [] \<or> column \<in> set fs)"

definition loaded :: "string list \<Rightarrow> string \<Rightarrow> 'a option \<Rightarrow> 'a option" where
  \<comment> \<open>Modelled from the spec: the mapper's \<open>relations\<close> option: a relation that is named
      is loaded with its joined row.\<close>
  "loaded rels relation joined = (if relation \<in> set rels then joined else None)"

definition orm_entity ::
  "database \<Rightarrow> string list option \<Rightarrow> string list \<Rightarrow> shared_workflow_row \<Rightarrow> SharedWorkflow" where
  \<comment> \<open>Modelled from the spec: the entity object the mapper builds from a row, with the
      selected columns and the loaded relations.\<close>
  "orm_entity db sel rels row =
     \<lparr>SharedWorkflow.workflowId =
        (if selected sel ''workflowId'' then Some (workflow_id row) else None),
      userId = (if selected sel ''userId'' then Some (user_id row) else None),
      roleId = (if selected sel ''roleId'' then Some (role_id row) else None),
      role = loaded rels ''role'' (joined_role db row),
      user = loaded rels ''user'' (joined_user db row),
      workflow = loaded rels ''workflow'' (joined_workflow db row)\<rparr>"

definition orm_find ::
  "string list option \<Rightarrow> string list \<Rightarrow> FindOptionsWhere \<Rightarrow> database
     \<Rightarrow> SharedWorkflow list \<times> database" where
  \<comment> \<open>Modelled from the spec: the mapper's \<open>find({ select, relations, where })\<close>.\<close>
  "orm_find sel rels wh db =
     (map (orm_entity db sel rels) (filter (where_matches db wh) (tbl_shared_workflow db)), db)"

definition orm_findOne ::
  "string list \<Rightarrow> FindOptionsWhere \<Rightarrow> database \<Rightarrow> SharedWorkflow option \<times> database" where
  \<comment> \<open>Modelled from the spec: the mapper's \<open>findOne({ relations, where })\<close>: the first
      matching row, \<open>null\<close> when there is none.\<close>
  "orm_findOne rels wh db =
     (map_option (orm_entity db None rels) (find (where_matches db wh) (tbl_shared_workflow db)),
      db)"

definition orm_exist :: "FindOptionsWhere \<Rightarrow> database \<Rightarrow> bool \<times> database" where
  \<comment> \<open>Modelled from the spec: the mapper's \<open>exist({ where })\<close>.\<close>
  "orm_exist wh db = (list_ex (where_matches db wh) (tbl_shared_workflow db), db)"

definition apply_partial :: "SharedWorkflow \<Rightarrow> shared_workflow_row \<Rightarrow> shared_workflow_row" where
  \<comment> \<open>Modelled from the spec: the columns an update sets, from the properties present in
      the partial entity; an entity on a relation sets the foreign-key column.\<close>
  "apply_partial p row =
     \<lparr>workflow_id =
        (case SharedWorkflow.workflow p of Some w \<Rightarrow> WorkflowEntity.id w
         | None \<Rightarrow> (case SharedWorkflow.workflowId p of Some v \<Rightarrow> v | None \<Rightarrow> workflow_id row)),
      user_id =
        (case SharedWorkflow.user p of Some u \<Rightarrow> User.id u
         | None \<Rightarrow> (case SharedWorkflow.userId p of Some v \<Rightarrow> v | None \<Rightarrow> user_id row)),
      role_id =
        (case SharedWorkflow.role p of Some r \<Rightarrow> Role.id r
         | None \<Rightarrow> (case SharedWorkflow.roleId p of Some v \<Rightarrow> v | None \<Rightarrow> role_id row))\<rparr>"

datatype orm_error = QueryFailedError

definition write_table ::
  "shared_workflow_row list \<Rightarrow> 'a \<Rightarrow> database \<Rightarrow> (orm_error + 'a) \<times> database" where
  \<comment> \<open>Modelled from the spec: the end of a writing statement. The engine refuses a
      statement that would leave two rows with one key: the mapper raises and the table is
      as before. Otherwise the table is replaced and the result returned.\<close>
  "write_table rows result db =
     (if key_unique rows then (Inr result, db\<lparr>tbl_shared_workflow := rows\<rparr>)
      else (Inl QueryFailedError, db))"

definition orm_update ::
  "FindOptionsWhere \<Rightarrow> SharedWorkflow \<Rightarrow> database \<Rightarrow> (orm_error + nat) \<times> database" where
  \<comment> \<open>Modelled from the spec: the mapper's \<open>update(criteria, partialEntity)\<close>, one UPDATE
      statement; the result is the number of rows affected.\<close>
  "orm_update criteria p db =
     write_table
       (map (\<lambda>row. if criteria_matches db criteria row then apply_partial p row else row)
          (tbl_shared_workflow db))
       (length (filter (criteria_matches db criteria) (tbl_shared_workflow db))) db"

definition orm_delete :: "FindOptionsWhere \<Rightarrow> database \<Rightarrow> nat \<times> database" where
  \<comment> \<open>Modelled from the spec: the entity manager's \<open>delete(SharedWorkflow, criteria)\<close>, one
      DELETE statement; the result is the number of rows affected.\<close>
  "orm_delete criteria db =
     (length (filter (criteria_matches db criteria) (tbl_shared_workflow db)),
      db\<lparr>tbl_shared_workflow :=
           filter (\<lambda>row. \<not> criteria_matches db criteria row) (tbl_shared_workflow db)\<rparr>)"

definition orm_create :: "SharedWorkflow \<Rightarrow> SharedWorkflow" where
  \<comment> \<open>Modelled from the spec: the mapper's \<open>create(entityLike)\<close>: a new entity object with
      the given properties; nothing is written.\<close>
  "orm_create e = e"

definition row_of_entity :: "SharedWorkflow \<Rightarrow> shared_workflow_row option" where
  \<comment> \<open>Modelled from the spec: the row an entity is stored as; there is none when one of
      the three columns has no value.\<close>
  "row_of_entity e =
     (case (SharedWorkflow.workflowId e, SharedWorkflow.userId e, SharedWorkflow.roleId e) of
        (Some w, Some u, Some r) \<Rightarrow> Some \<lparr>workflow_id = w, user_id = u, role_id = r\<rparr>
      | _ \<Rightarrow> None)"

definition saved_row :: "shared_workflow_row list \<Rightarrow> shared_workflow_row \<Rightarrow> shared_workflow_row" where
  \<comment> \<open>Modelled from the spec: what a save makes of a row already in the table: the last
      of the saved rows with its key, or the row itself when none has it.\<close>
  "saved_row rows old =
     (case find (\<lambda>r. row_key r = row_key old) (rev rows) of Some r \<Rightarrow> r | None \<Rightarrow> old)"

definition orm_save ::
  "SharedWorkflow list \<Rightarrow> database \<Rightarrow> (orm_error + SharedWorkflow list) \<times> database" where
  \<comment> \<open>Modelled from the spec: the entity manager's \<open>save(entities)\<close>. The mapper looks
      the entities up by their key first: an entity whose key is in the table updates
      that row, every other entity is inserted, so two entities with one new key are
      refused as a duplicate key. The entities are returned. An entity without a value
      for one of the columns is rejected. On an error nothing is written.\<close>
  "orm_save entities db =
     (if list_all (\<lambda>e. row_of_entity e \<noteq> None) entities
      then (let rows = List.map_filter row_of_entity entities
            in write_table
                 (map (saved_row rows) (tbl_shared_workflow db)
                  @ filter (\<lambda>r. row_key r \<notin> set (map row_key (tbl_shared_workflow db))) rows)
                 entities db)
      else (Inl QueryFailedError, db))"

section \<open>SharedWorkflowRepository\<close>

text \<open>
  Each method builds its where-object as the source does, statement by statement, and
  hands it to the mapper. The where-object of a method is a definition of its own, so
  that it can be talked about.
\<close>

definition hasAccess_where :: "string \<Rightarrow> User \<Rightarrow> FindOptionsWhere" where
  "hasAccess_where wfId u =
     (let wh = empty_where\<lparr>FindOptionsWhere.workflowId := Some (Equal wfId)\<rparr>
      in if \<not> hasGlobalScope u ''workflow:read''
         then wh\<lparr>FindOptionsWhere.userId := Some (Equal (User.id u))\<rparr>
         else wh)"

definition hasAccess :: "string \<Rightarrow> User \<Rightarrow> database \<Rightarrow> bool \<times> database" where
  "hasAccess wfId u db = orm_exist (hasAccess_where wfId u) db"

definition getSharedWorkflowIds ::
  "string list \<Rightarrow> database \<Rightarrow> string option list \<times> database" where
  \<comment> \<open>\<open>sharing.workflowId\<close> is read off a projected entity, so each element is a
      property that may be absent\<close>
  "getSharedWorkflowIds wfIds db =
     (case orm_find (Some [''workflowId'']) []
             (empty_where\<lparr>FindOptionsWhere.workflowId := Some (In wfIds)\<rparr>) db of
        (sharedWorkflows, db') \<Rightarrow> (map SharedWorkflow.workflowId sharedWorkflows, db'))"

definition findByWorkflowIds_where :: "string list \<Rightarrow> FindOptionsWhere" where
  "findByWorkflowIds_where wfIds =
     empty_where
       \<lparr>FindOptionsWhere.role :=
          Some (RoleProps \<lparr>RoleWhere.name = Some (Equal ''owner''),
                           scope = Some (Equal ''workflow'')\<rparr>),
        FindOptionsWhere.workflowId := Some (In wfIds)\<rparr>"

definition findByWorkflowIds ::
  "string list \<Rightarrow> database \<Rightarrow> SharedWorkflow list \<times> database" where
  "findByWorkflowIds wfIds db =
     orm_find None [''role'', ''user''] (findByWorkflowIds_where wfIds) db"

definition findSharing_where ::
  "string \<Rightarrow> User \<Rightarrow> string \<Rightarrow> string list option \<Rightarrow> FindOptionsWhere" where
  "findSharing_where wfId u sc roles =
     (let wh = empty_where\<lparr>FindOptionsWhere.workflow := Some \<lparr>WorkflowWhere.id = wfId\<rparr>\<rparr>;
          wh = (if \<not> hasGlobalScope u sc
                then wh\<lparr>FindOptionsWhere.user := Some (UserProps \<lparr>UserWhere.id = User.id u\<rparr>)\<rparr>
                else wh)
      in case roles of
           Some rs \<Rightarrow>
             wh\<lparr>FindOptionsWhere.role :=
                  Some (RoleProps \<lparr>RoleWhere.name = Some (In rs), scope = None\<rparr>)\<rparr>
         | None \<Rightarrow> wh)"

definition findSharing ::
  "string \<Rightarrow> User \<Rightarrow> string \<Rightarrow> string list option \<Rightarrow> string list option \<Rightarrow> database
     \<Rightarrow> SharedWorkflow option \<times> database" where
  "findSharing wfId u sc roles extraRelations db =
     (let rels = [''workflow'', ''role''];
          rels = (case extraRelations of Some extra \<Rightarrow> rels @ extra | None \<Rightarrow> rels)
      in orm_findOne rels (findSharing_where wfId u sc roles) db)"

definition empty_entity :: SharedWorkflow where
  "empty_entity = \<lparr>SharedWorkflow.workflowId = None, userId = None, roleId = None,
     role = None, user = None, workflow = None\<rparr>"


text \<open>
  The options of \<open>getSharing\<close>:
  \<open>{ allowGlobalScope: true; globalScope: Scope } | { allowGlobalScope: false }\<close>.
\<close>

datatype GetSharingOptions = AllowGlobalScope string | DisallowGlobalScope

definition getSharing_where :: "User \<Rightarrow> string \<Rightarrow> GetSharingOptions \<Rightarrow> FindOptionsWhere" where
  "getSharing_where u wfId options =
     (let wh = empty_where\<lparr>FindOptionsWhere.workflowId := Some (Equal wfId)\<rparr>
      in if (case options of
               DisallowGlobalScope \<Rightarrow> True
             | AllowGlobalScope gs \<Rightarrow> \<not> hasGlobalScope u gs)
         then wh\<lparr>FindOptionsWhere.userId := Some (Equal (User.id u))\<rparr>
         else wh)"

definition getSharing ::
  "User \<Rightarrow> string \<Rightarrow> GetSharingOptions \<Rightarrow> string list option \<Rightarrow> database
     \<Rightarrow> SharedWorkflow option \<times> database" where
  \<comment> \<open>the parameter \<open>relations\<close> defaults to \<open>['workflow']\<close>\<close>
  "getSharing u wfId options rels db =
     orm_findOne (case rels of Some rs \<Rightarrow> rs | None \<Rightarrow> [''workflow''])
       (getSharing_where u wfId options) db"

record GetSharedWorkflowsOptions =
  relations :: "string list option"
  workflowIds :: "string list option"

definition getSharedWorkflows_where :: "User \<Rightarrow> GetSharedWorkflowsOptions \<Rightarrow> FindOptionsWhere" where
  "getSharedWorkflows_where u options =
     (let wh = (if \<not> Role.name (globalRole u) \<in> set [''owner'', ''admin'']
                then empty_where\<lparr>FindOptionsWhere.userId := Some (Equal (User.id u))\<rparr>
                else empty_where)
      in case workflowIds options of
           Some wfIds \<Rightarrow> wh\<lparr>FindOptionsWhere.workflowId := Some (In wfIds)\<rparr>
         | None \<Rightarrow> wh)"

definition getSharedWorkflows ::
  "User \<Rightarrow> GetSharedWorkflowsOptions \<Rightarrow> database \<Rightarrow> SharedWorkflow list \<times> database" where
  "getSharedWorkflows u options db =
     orm_find None (case relations options of Some rs \<Rightarrow> rs | None \<Rightarrow> [])
       (getSharedWorkflows_where u options) db"

definition share_step ::
  "WorkflowEntity \<Rightarrow> string \<Rightarrow> SharedWorkflow list \<Rightarrow> User \<Rightarrow> SharedWorkflow list" where
  \<comment> \<open>the callback of the \<open>reduce\<close>\<close>
  "share_step wflow rId acc u =
     (if isPending u then acc
      else acc @ [orm_create
                    (empty_entity\<lparr>SharedWorkflow.workflowId := Some (WorkflowEntity.id wflow),
                                  SharedWorkflow.userId := Some (User.id u),
                                  SharedWorkflow.roleId := Some rId\<rparr>)])"

definition share ::
  "WorkflowEntity \<Rightarrow> User list \<Rightarrow> string \<Rightarrow> database
     \<Rightarrow> (orm_error + SharedWorkflow list) \<times> database" where
  \<comment> \<open>the database argument is the one the \<open>transaction\<close> entity manager writes to\<close>
  "share wflow us rId db =
     (let newSharedWorkflows = foldl (share_step wflow rId) [] us
      in orm_save newSharedWorkflows db)"

definition findWithFields ::
  "string list \<Rightarrow> string list \<Rightarrow> database \<Rightarrow> SharedWorkflow list \<times> database" where
  "findWithFields wfIds fs db =
     orm_find (Some fs) [] (empty_where\<lparr>FindOptionsWhere.workflowId := Some (In wfIds)\<rparr>) db"

definition deleteByIds_where :: "string list \<Rightarrow> User option \<Rightarrow> FindOptionsWhere" where
  \<comment> \<open>the object literal always has the property \<open>user\<close>: with the entity, or with
      \<open>undefined\<close> when the argument is omitted\<close>
  "deleteByIds_where sharedWorkflowIds u =
     empty_where\<lparr>FindOptionsWhere.user :=
                    Some (case u of Some v \<Rightarrow> UserEntity v | None \<Rightarrow> UserUndefined),
                  FindOptionsWhere.workflowId := Some (In sharedWorkflowIds)\<rparr>"

definition deleteByIds :: "string list \<Rightarrow> User option \<Rightarrow> database \<Rightarrow> nat \<times> database" where
  \<comment> \<open>the database argument is the one the \<open>transaction\<close> entity manager writes to\<close>
  "deleteByIds sharedWorkflowIds u db = orm_delete (deleteByIds_where sharedWorkflowIds u) db"

definition findWorkflowIdsByUser_where :: "User \<Rightarrow> Role list option \<Rightarrow> FindOptionsWhere" where
  "findWorkflowIdsByUser_where u roles =
     (let wh = empty_where;
          wh = (if \<not> hasGlobalScope u ''workflow:read''
                then wh\<lparr>FindOptionsWhere.userId := Some (Equal (User.id u))\<rparr>
                else wh)
      in case roles of
           Some rs \<Rightarrow> wh\<lparr>FindOptionsWhere.role := Some (RoleOperator (In (map Role.id rs)))\<rparr>
         | None \<Rightarrow> wh)"

definition findWorkflowIdsByUser ::
  "User \<Rightarrow> Role list option \<Rightarrow> database \<Rightarrow> string option list \<times> database" where
  "findWorkflowIdsByUser u roles db =
     (case orm_find (Some [''workflowId'']) [] (findWorkflowIdsByUser_where u roles) db of
        (sharings, db') \<Rightarrow> (map SharedWorkflow.workflowId sharings, db'))"

section \<open>The cloud-plan client\<close>

text \<open>
  \<open>get\<close> is the generic GET helper of the editor's utilities, which the three functions
  call: a parameter here. It takes the base URL and the endpoint, and the state of the
  network, and returns the outcome of the promise (\<open>Inl\<close> a rejection with its error,
  \<open>Inr\<close> the response body) with the state after the request.
\<close>

record IRestApiContext =
  baseUrl :: string

definition getCurrentPlan ::
  "(string \<Rightarrow> string \<Rightarrow> 'net \<Rightarrow> ('e + 'a) \<times> 'net) \<Rightarrow> IRestApiContext \<Rightarrow> 'net
     \<Rightarrow> ('e + 'a) \<times> 'net" where
  "getCurrentPlan get context net = get (baseUrl context) ''/admin/cloud-plan'' net"

definition getCurrentUsage ::
  "(string \<Rightarrow> string \<Rightarrow> 'net \<Rightarrow> ('e + 'a) \<times> 'net) \<Rightarrow> IRestApiContext \<Rightarrow> 'net
     \<Rightarrow> ('e + 'a) \<times> 'net" where
  "getCurrentUsage get context net = get (baseUrl context) ''/cloud/limits'' net"

definition getAdminPanelLoginCode ::
  "(string \<Rightarrow> string \<Rightarrow> 'net \<Rightarrow> ('e + 'a) \<times> 'net) \<Rightarrow> IRestApiContext \<Rightarrow> 'net
     \<Rightarrow> ('e + 'a) \<times> 'net" where
  "getAdminPanelLoginCode get context net = get (baseUrl context) ''/admin/auth/login/code'' net"

section \<open>Two claims as the specification words them\<close>



section \<open>A small database\<close>

text \<open>
  Three users, of whom one is pending and one is an administrator holding every global
  scope, two workflows and three sharings. The theorems below are instantiated on it.
\<close>

definition ex_role_owner :: Role where
  "ex_role_owner = \<lparr>Role.id = ''r1'', name = ''owner'', scope = ''workflow''\<rparr>"

definition ex_role_editor :: Role where
  "ex_role_editor = \<lparr>Role.id = ''r2'', name = ''editor'', scope = ''workflow''\<rparr>"

definition ex_role_member :: Role where
  "ex_role_member = \<lparr>Role.id = ''r3'', name = ''member'', scope = ''global''\<rparr>"

definition ex_role_admin :: Role where
  "ex_role_admin = \<lparr>Role.id = ''r4'', name = ''admin'', scope = ''global''\<rparr>"

definition ex_alice :: User where
  "ex_alice = \<lparr>User.id = ''u1'', isPending = False, globalRole = ex_role_member,
     hasGlobalScope = (\<lambda>s. False)\<rparr>"

definition ex_bob :: User where
  "ex_bob = \<lparr>User.id = ''u2'', isPending = True, globalRole = ex_role_member,
     hasGlobalScope = (\<lambda>s. False)\<rparr>"

definition ex_carol :: User where
  "ex_carol = \<lparr>User.id = ''u3'', isPending = False, globalRole = ex_role_admin,
     hasGlobalScope = (\<lambda>s. True)\<rparr>"

definition ex_workflow1 :: WorkflowEntity where
  "ex_workflow1 = \<lparr>WorkflowEntity.id = ''w1''\<rparr>"

definition ex_workflow2 :: WorkflowEntity where
  "ex_workflow2 = \<lparr>WorkflowEntity.id = ''w2''\<rparr>"

definition ex_db :: database where
  "ex_db =
     \<lparr>tbl_shared_workflow =
        [\<lparr>workflow_id = ''w1'', user_id = ''u1'', role_id = ''r1''\<rparr>,
         \<lparr>workflow_id = ''w1'', user_id = ''u3'', role_id = ''r2''\<rparr>,
         \<lparr>workflow_id = ''w2'', user_id = ''u3'', role_id = ''r1''\<rparr>],
      tbl_role = [ex_role_owner, ex_role_editor, ex_role_member, ex_role_admin],
      tbl_user = [ex_alice, ex_bob, ex_carol],
      tbl_workflow = [ex_workflow1, ex_workflow2]\<rparr>"

definition ex_get :: "string \<Rightarrow> string \<Rightarrow> nat \<Rightarrow> (string + string) \<times> nat" where
  \<comment> \<open>a transport that counts its requests, answers on one endpoint and fails on the
      others\<close>
  "ex_get base endpoint n =
     (if endpoint = ''/cloud/limits'' then Inr (base @ endpoint) else Inl ''Network Error'',
      Suc n)"

lemmas ex_defs =
  ex_role_owner_def ex_role_editor_def ex_role_member_def ex_role_admin_def
  ex_alice_def ex_bob_def ex_carol_def ex_workflow1_def ex_workflow2_def ex_db_def

lemmas orm_defs =
  orm_find_def orm_findOne_def orm_exist_def orm_update_def orm_delete_def orm_save_def
  orm_create_def orm_entity_def where_matches_def criteria_matches_def selected_def loaded_def
  joined_role_def joined_user_def joined_workflow_def apply_partial_def row_of_entity_def
  empty_where_def empty_entity_def write_table_def key_unique_def row_key_def saved_row_def

section \<open>What the where-objects select\<close>

lemma where_matches_hasAccess:
  "where_matches db (hasAccess_where wfId u) =
     (\<lambda>row. workflow_id row = wfId
        \<and> (hasGlobalScope u ''workflow:read'' \<or> user_id row = User.id u))"
  by (rule ext) (auto simp: where_matches_def hasAccess_where_def empty_where_def Let_def)

lemma where_matches_getSharing:
  "where_matches db (getSharing_where u wfId options) =
     (\<lambda>row. workflow_id row = wfId
        \<and> ((\<exists>gs. options = AllowGlobalScope gs \<and> hasGlobalScope u gs)
             \<or> user_id row = User.id u))"
  by (rule ext, cases options)
     (auto simp: where_matches_def getSharing_where_def empty_where_def Let_def)

lemma joined_user_id: "joined_user db row = Some v \<Longrightarrow> User.id v = user_id row"
  by (auto simp: joined_user_def find_Some_iff)

lemma joined_workflow_id:
  "joined_workflow db row = Some w \<Longrightarrow> WorkflowEntity.id w = workflow_id row"
  by (auto simp: joined_workflow_def find_Some_iff)

lemma where_matches_findSharing:
  "where_matches db (findSharing_where wfId u sc roles) =
     (\<lambda>row. (\<exists>w. joined_workflow db row = Some w) \<and> workflow_id row = wfId
        \<and> (hasGlobalScope u sc
             \<or> (\<exists>v. joined_user db row = Some v) \<and> user_id row = User.id u)
        \<and> (case roles of
              None \<Rightarrow> True
            | Some rs \<Rightarrow> \<exists>r. joined_role db row = Some r \<and> Role.name r \<in> set rs))"
  by (rule ext, cases roles)
     (auto simp: where_matches_def findSharing_where_def empty_where_def Let_def
           split: option.splits dest: joined_user_id joined_workflow_id)

lemma where_matches_getSharedWorkflows:
  "where_matches db (getSharedWorkflows_where u options) =
     (\<lambda>row. (Role.name (globalRole u) = ''owner'' \<or> Role.name (globalRole u) = ''admin''
               \<or> user_id row = User.id u)
        \<and> (case workflowIds options of
              None \<Rightarrow> True
            | Some wfIds \<Rightarrow> workflow_id row \<in> set wfIds))"
  by (rule ext)
     (auto simp: where_matches_def getSharedWorkflows_where_def empty_where_def Let_def
           split: option.splits)

lemma where_matches_workflowId_In:
  "where_matches db (empty_where\<lparr>FindOptionsWhere.workflowId := Some (In wfIds)\<rparr>)
     = (\<lambda>row. workflow_id row \<in> set wfIds)"
  by (rule ext) (simp add: where_matches_def empty_where_def)

lemma where_matches_findByWorkflowIds:
  "where_matches db (findByWorkflowIds_where wfIds) =
     (\<lambda>row. workflow_id row \<in> set wfIds
        \<and> (\<exists>r. joined_role db row = Some r
                \<and> Role.name r = ''owner'' \<and> Role.scope r = ''workflow''))"
  by (rule ext)
     (auto simp: where_matches_def findByWorkflowIds_where_def empty_where_def
           split: option.splits)

lemma where_matches_findWorkflowIdsByUser:
  "where_matches db (findWorkflowIdsByUser_where u roles) =
     (\<lambda>row. (hasGlobalScope u ''workflow:read'' \<or> user_id row = User.id u)
        \<and> (case roles of None \<Rightarrow> True | Some rs \<Rightarrow> role_id row \<in> Role.id ` set rs))"
  by (rule ext)
     (auto simp: where_matches_def findWorkflowIdsByUser_where_def empty_where_def Let_def
           split: option.splits)

lemma criteria_matches_deleteByIds:
  "criteria_matches db (deleteByIds_where ids uo) =
     (\<lambda>row. case uo of
              None \<Rightarrow> False
            | Some u \<Rightarrow> workflow_id row \<in> set ids \<and> user_id row = User.id u)"
  by (rule ext, cases uo)
     (auto simp: criteria_matches_def where_matches_def deleteByIds_where_def empty_where_def)


section \<open>What the mapper hands out\<close>

lemma entity_workflowId_selected:
  "SharedWorkflow.workflowId (orm_entity db (Some [''workflowId'']) rels row)
     = Some (workflow_id row)"
  by (simp add: orm_entity_def selected_def)

lemma entity_no_relations:
  "orm_entity db sel [] row =
     \<lparr>SharedWorkflow.workflowId =
        (if selected sel ''workflowId'' then Some (workflow_id row) else None),
      userId = (if selected sel ''userId'' then Some (user_id row) else None),
      roleId = (if selected sel ''roleId'' then Some (role_id row) else None),
      role = None, user = None, workflow = None\<rparr>"
  by (simp add: orm_entity_def loaded_def)

lemma entity_role_user:
  "orm_entity db None [''role'', ''user''] =
     (\<lambda>row. \<lparr>SharedWorkflow.workflowId = Some (workflow_id row), userId = Some (user_id row),
        roleId = Some (role_id row), role = joined_role db row, user = joined_user db row,
        workflow = None\<rparr>)"
  by (rule ext) (simp add: orm_entity_def loaded_def selected_def)

section \<open>Writing statements and the key\<close>



lemma write_table_Inr:
  "fst (write_table rows result db) = Inr x
     \<Longrightarrow> tbl_shared_workflow (snd (write_table rows result db)) = rows \<and> x = result"
  by (auto simp: write_table_def split: if_splits)

lemma find_Some_member: "find P xs = Some x \<Longrightarrow> x \<in> set xs \<and> P x"
  by (induction xs) (auto split: if_splits)




lemma saved_row_same_key:
  assumes "r \<in> set rows" and "row_key r = row_key old"
  shows "\<exists>r' \<in> set rows. row_key r' = row_key r \<and> saved_row rows old = r'"
proof (cases "find (\<lambda>r. row_key r = row_key old) (rev rows)")
  case None
  with assms show ?thesis by (auto simp: find_None_iff)
next
  case (Some r')
  then have "r' \<in> set rows" and "row_key r' = row_key old"
    by (auto dest: find_Some_member)
  with Some assms(2) show ?thesis by (auto simp: saved_row_def)
qed


section \<open>The entities \<open>share\<close> builds and stores\<close>

lemma share_entities:
  "foldl (share_step wflow rId) acc us =
     acc @ map (\<lambda>u. \<lparr>SharedWorkflow.workflowId = Some (WorkflowEntity.id wflow),
                      userId = Some (User.id u), roleId = Some rId,
                      role = None, user = None, workflow = None\<rparr>)
             (filter (\<lambda>u. \<not> isPending u) us)"
  by (induction us arbitrary: acc) (simp_all add: share_step_def orm_create_def empty_entity_def)

lemma row_of_created:
  "row_of_entity \<lparr>SharedWorkflow.workflowId = Some w, userId = Some u, roleId = Some r,
                   role = a, user = b, workflow = c\<rparr>
   = Some \<lparr>workflow_id = w, user_id = u, role_id = r\<rparr>"
  by (simp add: row_of_entity_def)

lemma map_filter_map_Some:
  assumes "\<And>x. f (g x) = Some (h x)"
  shows "List.map_filter f (map g xs) = map h xs"
  using assms by (induction xs) simp_all

lemma share_eq:
  "share wflow us rId db =
     write_table
       (map (saved_row
               (map (\<lambda>u. \<lparr>workflow_id = WorkflowEntity.id wflow, user_id = User.id u,
                            role_id = rId\<rparr>)
                  (filter (\<lambda>u. \<not> isPending u) us)))
          (tbl_shared_workflow db)
        @ filter (\<lambda>r. row_key r \<notin> set (map row_key (tbl_shared_workflow db)))
            (map (\<lambda>u. \<lparr>workflow_id = WorkflowEntity.id wflow, user_id = User.id u,
                         role_id = rId\<rparr>)
               (filter (\<lambda>u. \<not> isPending u) us)))
       (map (\<lambda>u. \<lparr>SharedWorkflow.workflowId = Some (WorkflowEntity.id wflow),
                    userId = Some (User.id u), roleId = Some rId,
                    role = None, user = None, workflow = None\<rparr>)
          (filter (\<lambda>u. \<not> isPending u) us))
       db"
proof -
  let ?mk = "\<lambda>u. \<lparr>SharedWorkflow.workflowId = Some (WorkflowEntity.id wflow),
                      userId = Some (User.id u), roleId = Some rId,
                      role = None, user = None, workflow = None\<rparr>"
  let ?np = "filter (\<lambda>u. \<not> isPending u) us"
  have ents: "foldl (share_step wflow rId) [] us = map ?mk ?np"
    using share_entities [of wflow rId "[]" us] by simp
  have ok: "list_all (\<lambda>e. row_of_entity e \<noteq> None) (map ?mk ?np)"
    by (simp add: list_all_iff row_of_created)
  have rows: "List.map_filter row_of_entity (map ?mk ?np)
    = map (\<lambda>u. \<lparr>workflow_id = WorkflowEntity.id wflow, user_id = User.id u,
                  role_id = rId\<rparr>) ?np"
    by (rule map_filter_map_Some) (simp add: row_of_created)
  show ?thesis
    unfolding share_def Let_def ents orm_save_def rows using ok by simp
qed


lemma upsert_contains:
  assumes r: "r \<in> set rows"
    and same: "\<And>r'. r' \<in> set rows \<Longrightarrow> row_key r' = row_key r \<Longrightarrow> r' = r"
  shows "r \<in> set (map (saved_row rows) tbl
                   @ filter (\<lambda>x. row_key x \<notin> set (map row_key tbl)) rows)"
proof (cases "row_key r \<in> set (map row_key tbl)")
  case True
  then obtain old where old: "old \<in> set tbl" "row_key r = row_key old"
    by (auto simp: image_iff)
  from saved_row_same_key [OF r old(2)]
  obtain r' where r': "r' \<in> set rows" "row_key r' = row_key r" "saved_row rows old = r'"
    by blast
  from same [OF r'(1,2)] r'(3) have "saved_row rows old = r"
    by simp
  moreover from old(1) have "saved_row rows old \<in> saved_row rows ` set tbl"
    by (rule imageI)
  ultimately have "r \<in> saved_row rows ` set tbl"
    by (simp only:)
  then show ?thesis by simp
next
  case False
  with r show ?thesis by simp
qed

lemma share_stores_row:
  assumes ok: "fst (share wflow us rId db) = Inr ents"
    and u: "u \<in> set us" "\<not> isPending u"
  shows "\<lparr>workflow_id = WorkflowEntity.id wflow, user_id = User.id u, role_id = rId\<rparr>
           \<in> set (tbl_shared_workflow (snd (share wflow us rId db)))"
proof -
  let ?mk = "\<lambda>u. \<lparr>workflow_id = WorkflowEntity.id wflow, user_id = User.id u, role_id = rId\<rparr>"
  let ?rows = "map ?mk (filter (\<lambda>u. \<not> isPending u) us)"
  let ?tbl = "tbl_shared_workflow db"
  from u have in_rows: "?mk u \<in> set ?rows"
    by simp
  have "\<forall>r \<in> set ?rows. row_key r = row_key (?mk u) \<longrightarrow> r = ?mk u"
    by (simp add: row_key_def)
  then have same: "r = ?mk u" if "r \<in> set ?rows" "row_key r = row_key (?mk u)" for r
    using that by blast
  have "?mk u \<in> set (map (saved_row ?rows) ?tbl
                       @ filter (\<lambda>x. row_key x \<notin> set (map row_key ?tbl)) ?rows)"
    using in_rows same by (rule upsert_contains)
  moreover from ok have "tbl_shared_workflow (snd (share wflow us rId db))
      = map (saved_row ?rows) ?tbl @ filter (\<lambda>x. row_key x \<notin> set (map row_key ?tbl)) ?rows"
    unfolding share_eq by (rule write_table_Inr [THEN conjunct1])
  ultimately show ?thesis
    by (simp only:)
qed

lemma deleteByIds_eq:
  "deleteByIds ids uo db =
     (case uo of
        None \<Rightarrow> (0, db)
      | Some u \<Rightarrow>
          (length (filter (\<lambda>row. workflow_id row \<in> set ids \<and> user_id row = User.id u)
                     (tbl_shared_workflow db)),
           db\<lparr>tbl_shared_workflow :=
                filter (\<lambda>row. \<not> (workflow_id row \<in> set ids \<and> user_id row = User.id u))
                  (tbl_shared_workflow db)\<rparr>))"
  unfolding deleteByIds_def orm_delete_def criteria_matches_deleteByIds
  by (cases uo) simp_all

section \<open>The claims\<close>

text \<open>
  C1. \<open>getSharing\<close>, \<open>findSharing\<close> and \<open>getSharedWorkflows\<close> leave the user out of
  the where-object of their query exactly when the caller qualifies: for \<open>getSharing\<close>
  when the options allow a global scope and the user holds it, for \<open>findSharing\<close> when
  the user holds the given scope, for \<open>getSharedWorkflows\<close> when the name of the user's
  global role is \<open>owner\<close> or \<open>admin\<close>. Otherwise the where-object carries the caller's
  id (as \<open>userId\<close>, or as \<open>user: { id }\<close> in \<open>findSharing\<close>). Each method is the
  mapper's query on that where-object, and its result is characterised on the rows: the
  first row, or all rows, that meet the other conditions and, unless the caller
  qualifies, have the caller's id as user id.
\<close>

theorem user_filter_omitted_iff_qualified:
  "getSharing u wfId options rels db
     = orm_findOne (case rels of Some rs \<Rightarrow> rs | None \<Rightarrow> [''workflow''])
         (getSharing_where u wfId options) db
   \<and> FindOptionsWhere.userId (getSharing_where u wfId options)
     = (if \<exists>gs. options = AllowGlobalScope gs \<and> hasGlobalScope u gs
        then None else Some (Equal (User.id u)))
   \<and> FindOptionsWhere.user (getSharing_where u wfId options) = None
   \<and> fst (getSharing u wfId options rels db)
     = map_option (orm_entity db None (case rels of Some rs \<Rightarrow> rs | None \<Rightarrow> [''workflow'']))
         (find (\<lambda>row. workflow_id row = wfId
                  \<and> ((\<exists>gs. options = AllowGlobalScope gs \<and> hasGlobalScope u gs)
                       \<or> user_id row = User.id u))
            (tbl_shared_workflow db))
   \<and> findSharing wfId u sc roles extraRelations db
     = orm_findOne
         ([''workflow'', ''role''] @ (case extraRelations of Some extra \<Rightarrow> extra | None \<Rightarrow> []))
         (findSharing_where wfId u sc roles) db
   \<and> FindOptionsWhere.user (findSharing_where wfId u sc roles)
     = (if hasGlobalScope u sc then None else Some (UserProps \<lparr>UserWhere.id = User.id u\<rparr>))
   \<and> FindOptionsWhere.userId (findSharing_where wfId u sc roles) = None
   \<and> fst (findSharing wfId u sc roles extraRelations db)
     = map_option
         (orm_entity db None
            ([''workflow'', ''role'']
             @ (case extraRelations of Some extra \<Rightarrow> extra | None \<Rightarrow> [])))
         (find (\<lambda>row. (\<exists>w. joined_workflow db row = Some w) \<and> workflow_id row = wfId
                  \<and> (hasGlobalScope u sc
                       \<or> (\<exists>v. joined_user db row = Some v) \<and> user_id row = User.id u)
                  \<and> (case roles of
                        None \<Rightarrow> True
                      | Some rs \<Rightarrow> \<exists>r. joined_role db row = Some r \<and> Role.name r \<in> set rs))
            (tbl_shared_workflow db))
   \<and> getSharedWorkflows u opts db
     = orm_find None (case relations opts of Some rs \<Rightarrow> rs | None \<Rightarrow> [])
         (getSharedWorkflows_where u opts) db
   \<and> FindOptionsWhere.userId (getSharedWorkflows_where u opts)
     = (if Role.name (globalRole u) = ''owner'' \<or> Role.name (globalRole u) = ''admin''
        then None else Some (Equal (User.id u)))
   \<and> FindOptionsWhere.user (getSharedWorkflows_where u opts) = None
   \<and> fst (getSharedWorkflows u opts db)
     = map (orm_entity db None (case relations opts of Some rs \<Rightarrow> rs | None \<Rightarrow> []))
         (filter (\<lambda>row. (Role.name (globalRole u) = ''owner''
                          \<or> Role.name (globalRole u) = ''admin''
                          \<or> user_id row = User.id u)
                    \<and> (case workflowIds opts of
                          None \<Rightarrow> True
                        | Some wfIds \<Rightarrow> workflow_id row \<in> set wfIds))
            (tbl_shared_workflow db))"
proof (intro conjI)
  show "getSharing u wfId options rels db
     = orm_findOne (case rels of Some rs \<Rightarrow> rs | None \<Rightarrow> [''workflow''])
         (getSharing_where u wfId options) db"
    by (simp add: getSharing_def)
  show "FindOptionsWhere.userId (getSharing_where u wfId options)
     = (if \<exists>gs. options = AllowGlobalScope gs \<and> hasGlobalScope u gs
        then None else Some (Equal (User.id u)))"
    by (cases options) (simp_all add: getSharing_where_def empty_where_def Let_def)
  show "FindOptionsWhere.user (getSharing_where u wfId options) = None"
    by (simp add: getSharing_where_def empty_where_def Let_def)
  show "fst (getSharing u wfId options rels db)
     = map_option (orm_entity db None (case rels of Some rs \<Rightarrow> rs | None \<Rightarrow> [''workflow'']))
         (find (\<lambda>row. workflow_id row = wfId
                  \<and> ((\<exists>gs. options = AllowGlobalScope gs \<and> hasGlobalScope u gs)
                       \<or> user_id row = User.id u))
            (tbl_shared_workflow db))"
    by (simp add: getSharing_def orm_findOne_def where_matches_getSharing)
  show "findSharing wfId u sc roles extraRelations db
     = orm_findOne
         ([''workflow'', ''role''] @ (case extraRelations of Some extra \<Rightarrow> extra | None \<Rightarrow> []))
         (findSharing_where wfId u sc roles) db"
    by (cases extraRelations) (simp_all add: findSharing_def Let_def)
  then show "fst (findSharing wfId u sc roles extraRelations db)
     = map_option
         (orm_entity db None
            ([''workflow'', ''role'']
             @ (case extraRelations of Some extra \<Rightarrow> extra | None \<Rightarrow> [])))
         (find (\<lambda>row. (\<exists>w. joined_workflow db row = Some w) \<and> workflow_id row = wfId
                  \<and> (hasGlobalScope u sc
                       \<or> (\<exists>v. joined_user db row = Some v) \<and> user_id row = User.id u)
                  \<and> (case roles of
                        None \<Rightarrow> True
                      | Some rs \<Rightarrow> \<exists>r. joined_role db row = Some r \<and> Role.name r \<in> set rs))
            (tbl_shared_workflow db))"
    by (simp add: orm_findOne_def where_matches_findSharing)
  show "FindOptionsWhere.user (findSharing_where wfId u sc roles)
     = (if hasGlobalScope u sc then None else Some (UserProps \<lparr>UserWhere.id = User.id u\<rparr>))"
    by (cases roles) (simp_all add: findSharing_where_def empty_where_def Let_def)
  show "FindOptionsWhere.userId (findSharing_where wfId u sc roles) = None"
    by (cases roles) (simp_all add: findSharing_where_def empty_where_def Let_def)
  show "getSharedWorkflows u opts db
     = orm_find None (case relations opts of Some rs \<Rightarrow> rs | None \<Rightarrow> [])
         (getSharedWorkflows_where u opts) db"
    by (simp add: getSharedWorkflows_def)
  show "FindOptionsWhere.userId (getSharedWorkflows_where u opts)
     = (if Role.name (globalRole u) = ''owner'' \<or> Role.name (globalRole u) = ''admin''
        then None else Some (Equal (User.id u)))"
    by (cases "workflowIds opts")
       (simp_all add: getSharedWorkflows_where_def empty_where_def Let_def)
  show "FindOptionsWhere.user (getSharedWorkflows_where u opts) = None"
    by (cases "workflowIds opts")
       (simp_all add: getSharedWorkflows_where_def empty_where_def Let_def)
  show "fst (getSharedWorkflows u opts db)
     = map (orm_entity db None (case relations opts of Some rs \<Rightarrow> rs | None \<Rightarrow> []))
         (filter (\<lambda>row. (Role.name (globalRole u) = ''owner''
                          \<or> Role.name (globalRole u) = ''admin''
                          \<or> user_id row = User.id u)
                    \<and> (case workflowIds opts of
                          None \<Rightarrow> True
                        | Some wfIds \<Rightarrow> workflow_id row \<in> set wfIds))
            (tbl_shared_workflow db))"
    by (simp add: getSharedWorkflows_def orm_find_def where_matches_getSharedWorkflows)
qed

theorem user_filter_omitted_iff_qualified_witness:
  "FindOptionsWhere.userId (getSharing_where ex_alice ''w1'' (AllowGlobalScope ''workflow:read''))
     = Some (Equal ''u1'')
   \<and> FindOptionsWhere.userId (getSharing_where ex_carol ''w1'' (AllowGlobalScope ''workflow:read''))
     = None
   \<and> FindOptionsWhere.userId (getSharing_where ex_carol ''w1'' DisallowGlobalScope)
     = Some (Equal ''u3'')
   \<and> FindOptionsWhere.user (findSharing_where ''w1'' ex_alice ''workflow:read'' None)
     = Some (UserProps \<lparr>UserWhere.id = ''u1''\<rparr>)
   \<and> FindOptionsWhere.user (findSharing_where ''w1'' ex_carol ''workflow:read'' None) = None
   \<and> map_option SharedWorkflow.userId
        (fst (getSharing ex_alice ''w2'' (AllowGlobalScope ''workflow:read'') None ex_db))
     = None
   \<and> map_option SharedWorkflow.userId
        (fst (getSharing ex_carol ''w1'' (AllowGlobalScope ''workflow:read'') None ex_db))
     = Some (Some ''u1'')
   \<and> map_option SharedWorkflow.userId
        (fst (getSharing ex_carol ''w1'' DisallowGlobalScope None ex_db))
     = Some (Some ''u3'')
   \<and> map_option SharedWorkflow.userId
        (fst (findSharing ''w2'' ex_alice ''workflow:read'' None None ex_db))
     = None
   \<and> map_option SharedWorkflow.userId
        (fst (findSharing ''w1'' ex_carol ''workflow:read'' None None ex_db))
     = Some (Some ''u1'')
   \<and> map SharedWorkflow.userId
        (fst (getSharedWorkflows ex_alice \<lparr>relations = None, workflowIds = None\<rparr> ex_db))
     = [Some ''u1'']
   \<and> map SharedWorkflow.userId
        (fst (getSharedWorkflows ex_carol \<lparr>relations = None, workflowIds = None\<rparr> ex_db))
     = [Some ''u1'', Some ''u3'', Some ''u3'']"
  using user_filter_omitted_iff_qualified
          [of ex_alice "''w2''" "AllowGlobalScope ''workflow:read''" None ex_db
              "''workflow:read''" None None "\<lparr>relations = None, workflowIds = None\<rparr>"]
        user_filter_omitted_iff_qualified
          [of ex_alice "''w1''" "AllowGlobalScope ''workflow:read''" None ex_db
              "''workflow:read''" None None "\<lparr>relations = None, workflowIds = None\<rparr>"]
        user_filter_omitted_iff_qualified
          [of ex_carol "''w1''" "AllowGlobalScope ''workflow:read''" None ex_db
              "''workflow:read''" None None "\<lparr>relations = None, workflowIds = None\<rparr>"]
        user_filter_omitted_iff_qualified
          [of ex_carol "''w1''" DisallowGlobalScope None ex_db
              "''workflow:read''" None None "\<lparr>relations = None, workflowIds = None\<rparr>"]
  by (simp add: ex_defs orm_defs getSharing_where_def findSharing_where_def
        getSharedWorkflows_where_def Let_def)

text \<open>
  C2. For every workflow id and user, \<open>hasAccess(workflowId, user)\<close> returns true if and
  only if the table has a row with that workflow id whose user id is the user's, or any
  row with that workflow id when the user holds the global scope \<open>workflow:read\<close>.
\<close>

theorem hasAccess_iff_row_exists:
  "fst (hasAccess wfId u db) \<longleftrightarrow>
     (\<exists>row \<in> set (tbl_shared_workflow db).
        workflow_id row = wfId
        \<and> (hasGlobalScope u ''workflow:read'' \<or> user_id row = User.id u))"
  by (simp add: hasAccess_def orm_exist_def list_ex_iff where_matches_hasAccess)

theorem hasAccess_iff_row_exists_witness:
  "fst (hasAccess ''w1'' ex_alice ex_db) \<and> \<not> fst (hasAccess ''w2'' ex_alice ex_db)
   \<and> fst (hasAccess ''w2'' ex_carol ex_db)"
  using hasAccess_iff_row_exists [of "''w1''" ex_alice ex_db]
    hasAccess_iff_row_exists [of "''w2''" ex_alice ex_db]
    hasAccess_iff_row_exists [of "''w2''" ex_carol ex_db]
  by (simp add: ex_defs)







text \<open>
  C5. Round trip: when \<open>share(transaction, workflow, users, roleId)\<close> has succeeded,
  then for every user of the list that is not pending the row of that user is among the
  results of \<open>findWithFields(workflowIds, { fields })\<close> whenever the workflow's id is in
  \<open>workflowIds\<close>; the entity returned carries the selected columns of the row. The read
  is on the database the transaction has written.
\<close>

theorem share_findWithFields_roundtrip:
  assumes "fst (share wflow us rId db) = Inr ents"
    and "u \<in> set us" and "\<not> isPending u" and "WorkflowEntity.id wflow \<in> set wfIds"
  shows "\<lparr>SharedWorkflow.workflowId =
            (if selected (Some fs) ''workflowId'' then Some (WorkflowEntity.id wflow) else None),
          userId = (if selected (Some fs) ''userId'' then Some (User.id u) else None),
          roleId = (if selected (Some fs) ''roleId'' then Some rId else None),
          role = None, user = None, workflow = None\<rparr>
         \<in> set (fst (findWithFields wfIds fs (snd (share wflow us rId db))))"
proof -
  let ?row = "\<lparr>workflow_id = WorkflowEntity.id wflow, user_id = User.id u, role_id = rId\<rparr>"
  let ?db' = "snd (share wflow us rId db)"
  from assms(1-3) have "?row \<in> set (tbl_shared_workflow ?db')"
    by (rule share_stores_row)
  moreover from assms(4) have "workflow_id ?row \<in> set wfIds"
    by simp
  ultimately have "orm_entity ?db' (Some fs) [] ?row \<in> set (fst (findWithFields wfIds fs ?db'))"
    unfolding findWithFields_def orm_find_def
    by (simp add: where_matches_workflowId_In)
  then show ?thesis
    unfolding entity_no_relations by (simp only: shared_workflow_row.simps)
qed

theorem share_findWithFields_roundtrip_witness:
  "fst (share ex_workflow2 [ex_bob, ex_alice] ''r2'' ex_db)
     = Inr [\<lparr>SharedWorkflow.workflowId = Some ''w2'', userId = Some ''u1'',
             roleId = Some ''r2'', role = None, user = None, workflow = None\<rparr>]
   \<and> ex_alice \<in> set [ex_bob, ex_alice] \<and> \<not> isPending ex_alice
   \<and> WorkflowEntity.id ex_workflow2 \<in> set [''w2'', ''w9'']
   \<and> \<lparr>SharedWorkflow.workflowId = Some ''w2'', userId = None, roleId = Some ''r2'',
       role = None, user = None, workflow = None\<rparr>
      \<in> set (fst (findWithFields [''w2'', ''w9''] [''workflowId'', ''roleId'']
                    (snd (share ex_workflow2 [ex_bob, ex_alice] ''r2'' ex_db))))"
proof -
  have 0: "fst (share ex_workflow2 [ex_bob, ex_alice] ''r2'' ex_db)
     = Inr [\<lparr>SharedWorkflow.workflowId = Some ''w2'', userId = Some ''u1'',
             roleId = Some ''r2'', role = None, user = None, workflow = None\<rparr>]"
    unfolding share_eq by (simp add: ex_defs write_table_def key_unique_def row_key_def saved_row_def)
  have 1: "ex_alice \<in> set [ex_bob, ex_alice]" by simp
  have 2: "\<not> isPending ex_alice" by (simp add: ex_alice_def)
  have 3: "WorkflowEntity.id ex_workflow2 \<in> set [''w2'', ''w9'']" by (simp add: ex_workflow2_def)
  from share_findWithFields_roundtrip [OF 0 1 2 3, of "[''workflowId'', ''roleId'']"]
  have "\<lparr>SharedWorkflow.workflowId = Some ''w2'', userId = None, roleId = Some ''r2'',
       role = None, user = None, workflow = None\<rparr>
      \<in> set (fst (findWithFields [''w2'', ''w9''] [''workflowId'', ''roleId'']
                    (snd (share ex_workflow2 [ex_bob, ex_alice] ''r2'' ex_db))))"
    by (simp add: selected_def ex_workflow2_def ex_alice_def)
  with 0 1 2 3 show ?thesis by blast
qed

text \<open>
  C6. \<open>findByWorkflowIds(workflowIds)\<close> returns exactly the rows whose workflow id is in
  the list and whose joined role has the name \<open>owner\<close> and the scope \<open>workflow\<close>, each
  with all its columns and with its \<open>role\<close> and \<open>user\<close> relations loaded.
\<close>
theorem findByWorkflowIds_rows:
  "fst (findByWorkflowIds wfIds db) =
     map (\<lambda>row. \<lparr>SharedWorkflow.workflowId = Some (workflow_id row),
                  userId = Some (user_id row), roleId = Some (role_id row),
                  role = joined_role db row, user = joined_user db row, workflow = None\<rparr>)
       (filter (\<lambda>row. workflow_id row \<in> set wfIds
                  \<and> (\<exists>r. joined_role db row = Some r
                          \<and> Role.name r = ''owner'' \<and> Role.scope r = ''workflow''))
          (tbl_shared_workflow db))"
  by (simp add: findByWorkflowIds_def orm_find_def where_matches_findByWorkflowIds
        entity_role_user)

theorem findByWorkflowIds_rows_witness:
  "fst (findByWorkflowIds [''w1'', ''w3''] ex_db) =
     [\<lparr>SharedWorkflow.workflowId = Some ''w1'', userId = Some ''u1'', roleId = Some ''r1'',
       role = Some ex_role_owner, user = Some ex_alice, workflow = None\<rparr>]"
  using findByWorkflowIds_rows [of "[''w1'', ''w3'']" ex_db]
  by (simp add: ex_defs joined_role_def joined_user_def)

text \<open>
  C7. \<open>findWorkflowIdsByUser(user, { roles })\<close> returns the workflow ids of the rows whose
  user id is the user's, or of all rows when the user holds the global scope
  \<open>workflow:read\<close>; when \<open>roles\<close> is given, only of the rows whose role id is the id of
  one of the given roles.
\<close>
theorem findWorkflowIdsByUser_ids:
  "fst (findWorkflowIdsByUser u roles db) =
     map (\<lambda>row. Some (workflow_id row))
       (filter (\<lambda>row. (hasGlobalScope u ''workflow:read'' \<or> user_id row = User.id u)
                  \<and> (case roles of None \<Rightarrow> True | Some rs \<Rightarrow> role_id row \<in> Role.id ` set rs))
          (tbl_shared_workflow db))"
  by (simp add: findWorkflowIdsByUser_def orm_find_def where_matches_findWorkflowIdsByUser
        entity_workflowId_selected comp_def)

theorem findWorkflowIdsByUser_ids_witness:
  "fst (findWorkflowIdsByUser ex_alice None ex_db) = [Some ''w1'']
   \<and> fst (findWorkflowIdsByUser ex_carol None ex_db) = [Some ''w1'', Some ''w1'', Some ''w2'']
   \<and> fst (findWorkflowIdsByUser ex_carol (Some [ex_role_owner]) ex_db) = [Some ''w1'', Some ''w2'']
   \<and> fst (findWorkflowIdsByUser ex_carol (Some []) ex_db) = []"
  using findWorkflowIdsByUser_ids [of ex_alice None ex_db]
    findWorkflowIdsByUser_ids [of ex_carol None ex_db]
    findWorkflowIdsByUser_ids [of ex_carol "Some [ex_role_owner]" ex_db]
    findWorkflowIdsByUser_ids [of ex_carol "Some []" ex_db]
  by (simp add: ex_defs)

text \<open>
  C8. For every transport and connection context, \<open>getCurrentPlan\<close> is one GET request
  to \<open>/admin/cloud-plan\<close> at the context's base URL, \<open>getCurrentUsage\<close> one to
  \<open>/cloud/limits\<close> and \<open>getAdminPanelLoginCode\<close> one to \<open>/admin/auth/login/code\<close>:
  outcome and network state are those of the single request, so each function fails
  exactly when the transport does, and with the same error.
\<close>
theorem cloud_plan_requests:
  "getCurrentPlan get context net = get (baseUrl context) ''/admin/cloud-plan'' net
   \<and> getCurrentUsage get context net = get (baseUrl context) ''/cloud/limits'' net
   \<and> getAdminPanelLoginCode get context net = get (baseUrl context) ''/admin/auth/login/code'' net
   \<and> (fst (getCurrentPlan get context net) = Inl e
        \<longleftrightarrow> fst (get (baseUrl context) ''/admin/cloud-plan'' net) = Inl e)
   \<and> (fst (getCurrentUsage get context net) = Inl e
        \<longleftrightarrow> fst (get (baseUrl context) ''/cloud/limits'' net) = Inl e)
   \<and> (fst (getAdminPanelLoginCode get context net) = Inl e
        \<longleftrightarrow> fst (get (baseUrl context) ''/admin/auth/login/code'' net) = Inl e)"
  by (simp add: getCurrentPlan_def getCurrentUsage_def getAdminPanelLoginCode_def)

theorem cloud_plan_requests_witness:
  "getCurrentPlan ex_get \<lparr>baseUrl = ''http://n8n''\<rparr> 0 = (Inl ''Network Error'', 1)
   \<and> getCurrentUsage ex_get \<lparr>baseUrl = ''http://n8n''\<rparr> 0 = (Inr ''http://n8n/cloud/limits'', 1)
   \<and> getAdminPanelLoginCode ex_get \<lparr>baseUrl = ''http://n8n''\<rparr> 0 = (Inl ''Network Error'', 1)"
  using cloud_plan_requests [of ex_get "\<lparr>baseUrl = ''http://n8n''\<rparr>" 0 "''Network Error''"]
  by (simp add: ex_get_def)

text \<open>
  C9. The eight read methods of the repository leave the database as it was: for every
  input, the database after the call is the database before it.
\<close>
theorem reads_leave_database_unchanged:
  "snd (hasAccess wfId u db) = db
   \<and> snd (getSharedWorkflowIds wfIds db) = db
   \<and> snd (findByWorkflowIds wfIds db) = db
   \<and> snd (findSharing wfId u sc rolenames extraRelations db) = db
   \<and> snd (getSharing u wfId options rels db) = db
   \<and> snd (getSharedWorkflows u opts db) = db
   \<and> snd (findWithFields wfIds fs db) = db
   \<and> snd (findWorkflowIdsByUser u roles db) = db"
  by (simp add: hasAccess_def getSharedWorkflowIds_def findByWorkflowIds_def findSharing_def
        getSharing_def getSharedWorkflows_def findWithFields_def findWorkflowIdsByUser_def
        orm_exist_def orm_find_def orm_findOne_def Let_def)

theorem reads_leave_database_unchanged_witness:
  "snd (hasAccess ''w1'' ex_alice ex_db) = ex_db
   \<and> snd (getSharedWorkflowIds [''w1''] ex_db) = ex_db
   \<and> snd (findByWorkflowIds [''w1''] ex_db) = ex_db
   \<and> snd (findSharing ''w1'' ex_alice ''workflow:read'' None None ex_db) = ex_db
   \<and> snd (getSharing ex_alice ''w1'' DisallowGlobalScope None ex_db) = ex_db
   \<and> snd (getSharedWorkflows ex_alice \<lparr>relations = None, workflowIds = None\<rparr> ex_db) = ex_db
   \<and> snd (findWithFields [''w1''] [''userId''] ex_db) = ex_db
   \<and> snd (findWorkflowIdsByUser ex_alice None ex_db) = ex_db"
  using reads_leave_database_unchanged
          [of "''w1''" ex_alice ex_db "[''w1'']" "''workflow:read''" None None
              DisallowGlobalScope None "\<lparr>relations = None, workflowIds = None\<rparr>"
              "[''userId'']" None]
  by simp

text \<open>
  C10, at the input where the source departs from it. \<open>deleteByIds\<close> reads the given
  ids as workflow ids. With a user it deletes the rows of that user for those workflows
  and no other row. Without the optional user the object literal still has the property
  \<open>user\<close>, with the value \<open>undefined\<close>: the delete compares the user column with it and
  no row is deleted, where the rows of all users for those workflows should be.
\<close>

theorem deleteByIds_without_user_deletes_nothing:
  "deleteByIds [''w1''] None ex_db = (0, ex_db)
   \<and> deleteByIds [''w1''] (Some ex_carol) ex_db =
     (1, ex_db\<lparr>tbl_shared_workflow :=
            [\<lparr>workflow_id = ''w1'', user_id = ''u1'', role_id = ''r1''\<rparr>,
             \<lparr>workflow_id = ''w2'', user_id = ''u3'', role_id = ''r1''\<rparr>]\<rparr>)"
  by (simp add: deleteByIds_eq ex_defs)

end
